theory Spec2Isabelle
  imports Main "HOL-Library.Word"
begin

unbundle bit_operations_syntax

section \<open>Data model of \<^verbatim>\<open>service.cc\<close>\<close>

subsection \<open>The message envelope\<close>

text \<open>
  \<^verbatim>\<open>protobuf::Message\<close>, with the fields the four handlers read or write. A scalar
  protobuf field has a presence bit, so each is an option: \<open>None\<close> is "not set", which
  is what \<^verbatim>\<open>Clear()\<close> and \<^verbatim>\<open>clear_destination_id()\<close> leave behind. Repeated fields are
  lists.
\<close>

record Message =
  destination_id :: "string option"
  source_id :: "string option"
  data :: "string list"
  signature :: "string option"
  direct :: "bool option"
  replication :: "int option"
  client_node :: "bool option"
  request :: "bool option"
  hops_to_live :: "int option"
  route_history :: "string list"

text \<open>\<^verbatim>\<open>message.Clear()\<close>: every field back to "not set".\<close>

definition Clear :: Message where
  "Clear = \<lparr>destination_id = None, source_id = None, data = [], signature = None,
     direct = None, replication = None, client_node = None, request = None,
     hops_to_live = None, route_history = []\<rparr>"

text \<open>
  The generated getters \<^verbatim>\<open>destination_id()\<close>, \<^verbatim>\<open>source_id()\<close>, \<^verbatim>\<open>signature()\<close> and
  \<^verbatim>\<open>client_node()\<close> return the field's default when it is not set;
  \<^verbatim>\<open>has_source_id()\<close> reads the presence bit.
\<close>

definition get_destination_id :: "Message \<Rightarrow> string" where
  "get_destination_id m = (case destination_id m of None \<Rightarrow> [] | Some s \<Rightarrow> s)"

definition get_source_id :: "Message \<Rightarrow> string" where
  "get_source_id m = (case source_id m of None \<Rightarrow> [] | Some s \<Rightarrow> s)"

definition has_source_id :: "Message \<Rightarrow> bool" where
  "has_source_id m = (case source_id m of None \<Rightarrow> False | Some s \<Rightarrow> True)"

definition get_signature :: "Message \<Rightarrow> string" where
  "get_signature m = (case signature m of None \<Rightarrow> [] | Some s \<Rightarrow> s)"

definition get_client_node :: "Message \<Rightarrow> bool" where
  "get_client_node m = (case client_node m of None \<Rightarrow> False | Some b \<Rightarrow> b)"

text \<open>
  \<^verbatim>\<open>message.data(0)\<close> on a message with no data element is an out-of-range read of the
  repeated field (a failed bounds check in a debug build of protobuf, undefined
  otherwise): \<open>None\<close> here, turned into the error \<open>IndexOutOfRange\<close> by the handlers.
\<close>

definition data0 :: "Message \<Rightarrow> string option" where
  "data0 m = (case data m of [] \<Rightarrow> None | d # ds \<Rightarrow> Some d)"

datatype error = IndexOutOfRange | AssertionFailed

subsection \<open>Endpoints and peers\<close>

text \<open>
  \<^verbatim>\<open>boost::asio::ip::udp::endpoint\<close>: an IPv4 or IPv6 address and a port. An address is
  unspecified when it is all zero; a default-constructed endpoint is the IPv4 address
  0.0.0.0 with port 0.
\<close>

datatype ip_address = address_v4 "32 word" | address_v6 "128 word"

record Endpoint =
  address :: ip_address
  port :: "16 word"

fun is_unspecified :: "ip_address \<Rightarrow> bool" where
  "is_unspecified (address_v4 a) = (a = 0)"
| "is_unspecified (address_v6 a) = (a = 0)"

definition Endpoint_default :: Endpoint where
  "Endpoint_default = \<lparr>address = address_v4 0, port = 0\<rparr>"

text \<open>\<^verbatim>\<open>rudp::EndpointPair\<close>, \<^verbatim>\<open>rudp::NatType\<close> and \<^verbatim>\<open>rudp::kSuccess\<close>.\<close>

record EndpointPair =
  local_endpoint :: Endpoint
  external_endpoint :: Endpoint

definition EndpointPair_default :: EndpointPair where
  "EndpointPair_default =
     \<lparr>local_endpoint = Endpoint_default, external_endpoint = Endpoint_default\<rparr>"

datatype NatType = kSymmetric | kOther | kUnknown

definition kSuccess :: int where
  "kSuccess = 0"

text \<open>
  \<^verbatim>\<open>NodeInfo\<close>, with the two members the handlers assign. The class \<^verbatim>\<open>NodeId\<close> is a
  type parameter \<open>'id\<close>: its constructor from a string and its methods are taken from
  the environment below.
\<close>

record 'id NodeInfo =
  node_id :: 'id
  connection_id :: 'id

subsection \<open>Payloads\<close>

text \<open>
  The protobuf payloads, with the fields the handlers read (requests) or set
  (responses). \<open>'pe\<close> is \<^verbatim>\<open>protobuf::Endpoint\<close> and \<open>'nt\<close> the protobuf NAT type.
\<close>

record ('pe, 'nt) Contact =
  contact_node_id :: string
  contact_connection_id :: string
  contact_nat_type :: 'nt
  contact_private_endpoint :: 'pe
  contact_public_endpoint :: 'pe

record ('pe, 'nt) ConnectRequest =
  request_contact :: "('pe, 'nt) Contact"

record ('pe, 'nt) ConnectResponse =
  answer :: bool
  response_contact :: "('pe, 'nt) Contact option"
  connect_timestamp :: int
  connect_original_request :: string
  connect_original_signature :: string

record PingResponse =
  pong :: bool
  ping_original_request :: string
  ping_original_signature :: string
  ping_timestamp :: int

record FindNodesRequest =
  num_nodes_requested :: "32 word"
  target_node :: string

record FindNodesResponse =
  nodes :: "string list"
  found_original_request :: string
  found_original_signature :: string
  found_timestamp :: int

record ConnectSuccess_message =
  success_node_id :: string
  success_connection_id :: string
  requestor :: bool

subsection \<open>The collaborators\<close>

text \<open>
  What a handler calls outside \<^verbatim>\<open>service.cc\<close>: the routing table, the non-routing
  table, the network, the parameters, the protobuf codec and the free functions of
  \<^verbatim>\<open>utils.h\<close> and \<^verbatim>\<open>rpcs.h\<close>. Their code lies outside this file, so each is a field of the
  environment, giving the answer of that call during one run of a handler (a handler
  calls each of them at most once). \<open>NDEBUG\<close> says whether \<^verbatim>\<open>assert\<close> is compiled out.
\<close>

record ('id, 'pe, 'nt) service_env =
  identity :: string
  kNodeId :: 'id
  kConnectionId :: 'id
  client_mode :: bool
  Parameters_hops_to_live :: int
  Parameters_closest_nodes_size :: nat
  NDEBUG :: bool
  GetTimeStamp :: int
  NodeId :: "string \<Rightarrow> 'id"
  Empty :: "'id \<Rightarrow> bool"
  IsValid :: "'id \<Rightarrow> bool"
  String :: "'id \<Rightarrow> string"
  ParsePingRequest :: "string \<Rightarrow> bool"
  ParseConnectRequest :: "string \<Rightarrow> ('pe, 'nt) ConnectRequest option"
  ParseFindNodesRequest :: "string \<Rightarrow> FindNodesRequest option"
  ParseConnectSuccess :: "string \<Rightarrow> ConnectSuccess_message option"
  SerializePingResponse :: "PingResponse \<Rightarrow> string"
  SerializeConnectResponse :: "('pe, 'nt) ConnectResponse \<Rightarrow> string"
  SerializeFindNodesResponse :: "FindNodesResponse \<Rightarrow> string"
  Message_IsInitialized :: "Message \<Rightarrow> bool"
  FindNodesResponse_IsInitialized :: "FindNodesResponse \<Rightarrow> bool"
  GetEndpointFromProtobuf :: "'pe \<Rightarrow> Endpoint"
  SetProtobufEndpoint :: "Endpoint \<Rightarrow> 'pe"
  NatTypeProtobuf :: "NatType \<Rightarrow> 'nt"
  GetNthClosestNode :: "'id \<Rightarrow> nat \<Rightarrow> 'id NodeInfo"
  NonRoutingTable_CheckNode :: "'id NodeInfo \<Rightarrow> 'id \<Rightarrow> bool"
  RoutingTable_CheckNode :: "'id NodeInfo \<Rightarrow> bool"
  GetAvailableEndpoint ::
    "'id \<Rightarrow> EndpointPair \<Rightarrow> EndpointPair \<Rightarrow> NatType \<Rightarrow> int \<times> EndpointPair \<times> NatType"
  AddToRudp :: "'id \<Rightarrow> 'id \<Rightarrow> 'id \<Rightarrow> 'id \<Rightarrow> EndpointPair \<Rightarrow> bool \<Rightarrow> bool \<Rightarrow> int"
  GetClosestNodes :: "'id \<Rightarrow> 16 word \<Rightarrow> 'id list"
  ConnectSuccessAcknoledgement ::
    "'id \<Rightarrow> 'id \<Rightarrow> 'id \<Rightarrow> bool \<Rightarrow> 'id list \<Rightarrow> bool \<Rightarrow> Message"

text \<open>
  The calls a handler makes on the routing table, the non-routing table and the
  network, in the order it makes them. A handler returns this log beside the envelope:
  it is the handler's whole effect outside the envelope.
\<close>

datatype 'id call =
    Call_GetNthClosestNode 'id nat
  | Call_NonRoutingTable_CheckNode "'id NodeInfo" 'id
  | Call_RoutingTable_CheckNode "'id NodeInfo"
  | Call_GetAvailableEndpoint 'id EndpointPair
  | Call_AddToRudp 'id 'id 'id 'id EndpointPair bool bool
  | Call_GetClosestNodes 'id "16 word"
  | Call_AddPendingNode "'id NodeInfo"
  | Call_SendToDirect Message 'id 'id

text \<open>
  The calls that change a table or the transport: pending-node insertion, endpoint
  reservation, connection set-up and sending. The others are queries.
\<close>

fun mutating :: "'id call \<Rightarrow> bool" where
  "mutating (Call_AddToRudp a b c d e f g) = True"
| "mutating (Call_AddPendingNode p) = True"
| "mutating (Call_SendToDirect m a b) = True"
| "mutating (Call_GetAvailableEndpoint a e) = True"
| "mutating c = False"

type_synonym 'id run = "(error + Message) \<times> 'id call list"

text \<open>\<^verbatim>\<open>assert(message.IsInitialized())\<close> at the end of a handler.\<close>

definition assert_initialized ::
    "('id, 'pe, 'nt) service_env \<Rightarrow> Message \<Rightarrow> 'id call list \<Rightarrow> 'id run" where
  "assert_initialized env message log =
     (if NDEBUG env \<or> Message_IsInitialized env message then (Inr message, log)
      else (Inl AssertionFailed, log))"

section \<open>The handlers\<close>

subsection \<open>\<^verbatim>\<open>Service::Ping\<close>\<close>

definition Ping :: "('id, 'pe, 'nt) service_env \<Rightarrow> Message \<Rightarrow> 'id run" where
  "Ping env message =
     (if get_destination_id message \<noteq> identity env then (Inr Clear, [])
      else case data0 message of
        None \<Rightarrow> (Inl IndexOutOfRange, [])
      | Some d \<Rightarrow>
          if \<not> ParsePingRequest env d then (Inr message, [])
          else
            let ping_response =
                  \<lparr>pong = True, ping_original_request = d,
                   ping_original_signature = get_signature message,
                   ping_timestamp = GetTimeStamp env\<rparr>
            in assert_initialized env
                 (message\<lparr>request := Some False, route_history := [],
                    data := [SerializePingResponse env ping_response],
                    destination_id := Some (get_source_id message),
                    source_id := Some (identity env),
                    hops_to_live := Some (Parameters_hops_to_live env)\<rparr>) [])"

subsection \<open>\<^verbatim>\<open>Service::Connect\<close>\<close>

text \<open>
  The end of \<^verbatim>\<open>Connect\<close>, from \<^verbatim>\<open>set_timestamp\<close> on: the response is completed and
  serialised into the envelope, and the envelope is finalised. \<open>d\<close> is
  \<^verbatim>\<open>message.data(0)\<close>, read before \<^verbatim>\<open>clear_data()\<close>.
\<close>

definition Connect_reply ::
    "('id, 'pe, 'nt) service_env \<Rightarrow> Message \<Rightarrow> string \<Rightarrow> ('pe, 'nt) ConnectResponse \<Rightarrow>
     'id call list \<Rightarrow> 'id run" where
  "Connect_reply env message d connect_response log =
     (let connect_response' =
            connect_response\<lparr>connect_timestamp := GetTimeStamp env,
              connect_original_request := d,
              connect_original_signature := get_signature message\<rparr>
      in assert_initialized env
           (message\<lparr>route_history := [],
              data := [SerializeConnectResponse env connect_response'],
              direct := Some True,
              replication := Some 1,
              client_node := Some (client_mode env),
              request := Some False,
              hops_to_live := Some (Parameters_hops_to_live env),
              destination_id :=
                (if has_source_id message then Some (get_source_id message) else None),
              source_id := Some (identity env)\<rparr>) log)"

text \<open>
  The response as \<^verbatim>\<open>Connect\<close> holds it before the end: \<^verbatim>\<open>set_answer(false)\<close> and no
  contact, or \<^verbatim>\<open>set_answer(true)\<close> with the local contact block. The three fields set
  at the end start at their protobuf defaults.
\<close>

definition connect_response_false :: "('pe, 'nt) ConnectResponse" where
  "connect_response_false =
     \<lparr>answer = False, response_contact = None, connect_timestamp = 0,
      connect_original_request = [], connect_original_signature = []\<rparr>"

definition connect_response_true ::
    "('id, 'pe, 'nt) service_env \<Rightarrow> EndpointPair \<Rightarrow> NatType \<Rightarrow> ('pe, 'nt) ConnectResponse" where
  "connect_response_true env this_endpoint_pair this_nat_type =
     connect_response_false\<lparr>answer := True,
       response_contact := Some
         \<lparr>contact_node_id = String env (kNodeId env),
          contact_connection_id = String env (kConnectionId env),
          contact_nat_type = NatTypeProtobuf env this_nat_type,
          contact_private_endpoint =
            SetProtobufEndpoint env (local_endpoint this_endpoint_pair),
          contact_public_endpoint =
            SetProtobufEndpoint env (external_endpoint this_endpoint_pair)\<rparr>\<rparr>"

text \<open>
  The locals of \<^verbatim>\<open>Connect\<close> that the rest of the body reads: the candidate peer and
  its advertised endpoint pair, both taken from the request's contact block, the test of
  the pair, and the admission check with the calls it makes.
\<close>

definition peer_node_of ::
    "('id, 'pe, 'nt) service_env \<Rightarrow> ('pe, 'nt) ConnectRequest \<Rightarrow> 'id NodeInfo" where
  "peer_node_of env connect_request =
     \<lparr>node_id = NodeId env (contact_node_id (request_contact connect_request)),
      connection_id = NodeId env (contact_connection_id (request_contact connect_request))\<rparr>"

definition peer_endpoint_pair_of ::
    "('id, 'pe, 'nt) service_env \<Rightarrow> ('pe, 'nt) ConnectRequest \<Rightarrow> EndpointPair" where
  "peer_endpoint_pair_of env connect_request =
     \<lparr>local_endpoint = GetEndpointFromProtobuf env
        (contact_private_endpoint (request_contact connect_request)),
      external_endpoint = GetEndpointFromProtobuf env
        (contact_public_endpoint (request_contact connect_request))\<rparr>"

definition both_unspecified :: "EndpointPair \<Rightarrow> bool" where
  "both_unspecified pair =
     (is_unspecified (address (external_endpoint pair)) \<and>
      is_unspecified (address (local_endpoint pair)))"

definition check_node ::
    "('id, 'pe, 'nt) service_env \<Rightarrow> Message \<Rightarrow> 'id NodeInfo \<Rightarrow> bool \<times> 'id call list" where
  "check_node env message peer_node =
     (if get_client_node message then
        (let furthest_close_node_id =
               node_id (GetNthClosestNode env (kNodeId env) (Parameters_closest_nodes_size env))
         in (NonRoutingTable_CheckNode env peer_node furthest_close_node_id,
             [Call_GetNthClosestNode (kNodeId env) (Parameters_closest_nodes_size env),
              Call_NonRoutingTable_CheckNode peer_node furthest_close_node_id]))
      else (RoutingTable_CheckNode env peer_node, [Call_RoutingTable_CheckNode peer_node]))"

definition Connect :: "('id, 'pe, 'nt) service_env \<Rightarrow> Message \<Rightarrow> 'id run" where
  "Connect env message =
     (if get_destination_id message \<noteq> identity env then (Inr Clear, [])
      else case data0 message of
        None \<Rightarrow> (Inl IndexOutOfRange, [])
      | Some d \<Rightarrow>
         (case ParseConnectRequest env d of
            None \<Rightarrow> (Inr Clear, [])
          | Some connect_request \<Rightarrow>
             (let peer_node = peer_node_of env connect_request;
                  peer_endpoint_pair = peer_endpoint_pair_of env connect_request
              in
                if both_unspecified peer_endpoint_pair then (Inr Clear, [])
                else
                  (case check_node env message peer_node of
                     (check_node_succeeded, log) \<Rightarrow>
                       if check_node_succeeded then
                         (case GetAvailableEndpoint env (connection_id peer_node)
                                 peer_endpoint_pair EndpointPair_default kUnknown of
                            (ret_val, this_endpoint_pair, this_nat_type) \<Rightarrow>
                              (let log1 = log @ [Call_GetAvailableEndpoint
                                     (connection_id peer_node) peer_endpoint_pair]
                               in
                                 if ret_val \<noteq> kSuccess then (Inr Clear, log1)
                                 else if \<not> NDEBUG env \<and> both_unspecified this_endpoint_pair
                                 then (Inl AssertionFailed, log1)
                                 else
                                   (let add_result =
                                          AddToRudp env (kNodeId env) (kConnectionId env)
                                            (node_id peer_node) (connection_id peer_node)
                                            peer_endpoint_pair False (client_mode env);
                                        log2 = log1 @ [Call_AddToRudp (kNodeId env)
                                            (kConnectionId env) (node_id peer_node)
                                            (connection_id peer_node) peer_endpoint_pair False
                                            (client_mode env)]
                                    in
                                      if kSuccess = add_result then
                                        Connect_reply env message d
                                          (connect_response_true env this_endpoint_pair
                                             this_nat_type) log2
                                      else Connect_reply env message d
                                             connect_response_false log2)))
                       else Connect_reply env message d connect_response_false log))))"

subsection \<open>\<^verbatim>\<open>Service::FindNodes\<close>\<close>

text \<open>
  \<^verbatim>\<open>static_cast<uint16_t>(find_nodes.num_nodes_requested() - 1)\<close>: the 32-bit
  difference, cut to its low 16 bits.
\<close>

definition FindNodes :: "('id, 'pe, 'nt) service_env \<Rightarrow> Message \<Rightarrow> 'id run" where
  "FindNodes env message =
     (case data0 message of
        None \<Rightarrow> (Inl IndexOutOfRange, [])
      | Some d \<Rightarrow>
         (case ParseFindNodesRequest env d of
            None \<Rightarrow> (Inr Clear, [])
          | Some find_nodes \<Rightarrow>
              if 0 = num_nodes_requested find_nodes \<or>
                 Empty env (NodeId env (target_node find_nodes)) \<or>
                 \<not> IsValid env (NodeId env (target_node find_nodes))
              then (Inr Clear, [])
              else
                (let count = (ucast (num_nodes_requested find_nodes - 1) :: 16 word);
                     closest = GetClosestNodes env (NodeId env (target_node find_nodes)) count;
                     log = [Call_GetClosestNodes (NodeId env (target_node find_nodes)) count];
                     found_nodes =
                       \<lparr>nodes = identity env # map (String env) closest,
                        found_original_request = d,
                        found_original_signature = get_signature message,
                        found_timestamp = GetTimeStamp env\<rparr>
                 in
                   if \<not> NDEBUG env \<and> \<not> FindNodesResponse_IsInitialized env found_nodes
                   then (Inl AssertionFailed, log)
                   else assert_initialized env
                     (message\<lparr>destination_id :=
                          (if has_source_id message then Some (get_source_id message)
                           else None),
                        source_id := Some (identity env),
                        route_history := [],
                        data := [SerializeFindNodesResponse env found_nodes],
                        direct := Some True,
                        replication := Some 1,
                        client_node := Some (client_mode env),
                        request := Some False,
                        hops_to_live := Some (Parameters_hops_to_live env)\<rparr>) log)))"

subsection \<open>\<^verbatim>\<open>Service::ConnectSuccess\<close>\<close>

definition ConnectSuccessFromRequester ::
    "('id, 'pe, 'nt) service_env \<Rightarrow> 'id NodeInfo \<Rightarrow> 'id call list" where
  "ConnectSuccessFromRequester env peer = [Call_AddPendingNode peer]"

text \<open>
  \<^verbatim>\<open>close_ids\<close> is declared \<^verbatim>\<open>const\<close> and empty (beside the comment
  \<^verbatim>\<open>add closer ids!!!\<close>), and handed to \<^verbatim>\<open>rpcs::ConnectSuccessAcknoledgement\<close> as it is.
\<close>

definition ConnectSuccessFromResponder ::
    "('id, 'pe, 'nt) service_env \<Rightarrow> 'id NodeInfo \<Rightarrow> 'id call list" where
  "ConnectSuccessFromResponder env peer =
     (let close_ids = [];
          connect_success_ack =
            ConnectSuccessAcknoledgement env (node_id peer) (kNodeId env)
              (kConnectionId env) True close_ids (client_mode env)
      in [Call_SendToDirect connect_success_ack (node_id peer) (connection_id peer)])"

definition ConnectSuccess :: "('id, 'pe, 'nt) service_env \<Rightarrow> Message \<Rightarrow> 'id run" where
  "ConnectSuccess env message =
     (case data0 message of
        None \<Rightarrow> (Inl IndexOutOfRange, [])
      | Some d \<Rightarrow>
         (case ParseConnectSuccess env d of
            None \<Rightarrow> (Inr Clear, [])
          | Some connect_success \<Rightarrow>
             (let peer =
                    \<lparr>node_id = NodeId env (success_node_id connect_success),
                     connection_id = NodeId env (success_connection_id connect_success)\<rparr>
              in
                if Empty env (node_id peer) \<or> Empty env (connection_id peer)
                then (Inr message, [])
                else if requestor connect_success
                then (Inr Clear, ConnectSuccessFromRequester env peer)
                else (Inr Clear, ConnectSuccessFromResponder env peer))))"

subsection \<open>What the final assertions examine\<close>

text \<open>
  The envelope as \<^verbatim>\<open>Ping\<close> has it when it reaches
  \<^verbatim>\<open>assert(message.IsInitialized())\<close>, for the data element \<open>d\<close> it parsed.
\<close>

definition Ping_envelope ::
    "('id, 'pe, 'nt) service_env \<Rightarrow> Message \<Rightarrow> string \<Rightarrow> Message" where
  "Ping_envelope env message d =
     message\<lparr>request := Some False, route_history := [],
       data := [SerializePingResponse env
         \<lparr>pong = True, ping_original_request = d,
          ping_original_signature = get_signature message,
          ping_timestamp = GetTimeStamp env\<rparr>],
       destination_id := Some (get_source_id message),
       source_id := Some (identity env),
       hops_to_live := Some (Parameters_hops_to_live env)\<rparr>"

text \<open>
  The envelope as \<^verbatim>\<open>Connect\<close> has it at its final \<^verbatim>\<open>assert\<close>, for the response
  \<open>connect_response\<close> it holds before \<^verbatim>\<open>set_timestamp\<close>.
\<close>

definition Connect_envelope ::
    "('id, 'pe, 'nt) service_env \<Rightarrow> Message \<Rightarrow> string \<Rightarrow> ('pe, 'nt) ConnectResponse \<Rightarrow>
     Message" where
  "Connect_envelope env message d connect_response =
     message\<lparr>route_history := [],
       data := [SerializeConnectResponse env
         (connect_response\<lparr>connect_timestamp := GetTimeStamp env,
            connect_original_request := d,
            connect_original_signature := get_signature message\<rparr>)],
       direct := Some True,
       replication := Some 1,
       client_node := Some (client_mode env),
       request := Some False,
       hops_to_live := Some (Parameters_hops_to_live env),
       destination_id :=
         (if has_source_id message then Some (get_source_id message) else None),
       source_id := Some (identity env)\<rparr>"

text \<open>
  The response \<^verbatim>\<open>found_nodes\<close> as \<^verbatim>\<open>FindNodes\<close> has it at
  \<^verbatim>\<open>assert(found_nodes.IsInitialized())\<close>, and the envelope at the final \<^verbatim>\<open>assert\<close>.
\<close>

definition FindNodes_found_nodes ::
    "('id, 'pe, 'nt) service_env \<Rightarrow> Message \<Rightarrow> string \<Rightarrow> FindNodesRequest \<Rightarrow>
     FindNodesResponse" where
  "FindNodes_found_nodes env message d find_nodes =
     \<lparr>nodes = identity env # map (String env)
        (GetClosestNodes env (NodeId env (target_node find_nodes))
           (ucast (num_nodes_requested find_nodes - 1))),
      found_original_request = d,
      found_original_signature = get_signature message,
      found_timestamp = GetTimeStamp env\<rparr>"

definition FindNodes_envelope ::
    "('id, 'pe, 'nt) service_env \<Rightarrow> Message \<Rightarrow> FindNodesResponse \<Rightarrow> Message" where
  "FindNodes_envelope env message found_nodes =
     message\<lparr>destination_id :=
         (if has_source_id message then Some (get_source_id message) else None),
       source_id := Some (identity env),
       route_history := [],
       data := [SerializeFindNodesResponse env found_nodes],
       direct := Some True,
       replication := Some 1,
       client_node := Some (client_mode env),
       request := Some False,
       hops_to_live := Some (Parameters_hops_to_live env)\<rparr>"

section \<open>A closest-nodes query and a concrete node\<close>

text \<open>
  Modelled from the spec: the unsigned integer an id stands for in the XOR metric (the
  class \<^verbatim>\<open>NodeId\<close> is not among the sources). The raw bytes are read big-endian.
\<close>

definition id_value :: "string \<Rightarrow> nat" where
  "id_value s = foldl (\<lambda>a c. a * 256 + of_char c) 0 s"

text \<open>
  Modelled from the spec: \<^verbatim>\<open>RoutingTable::GetClosestNodes\<close>, whose code is not among
  the sources. The spec gives it as the ids of the table other than the local id,
  ordered by XOR distance to the target (\<open>a\<close> is closer than \<open>b\<close> when
  \<open>a XOR target < b XOR target\<close> as unsigned integers), cut to at most \<open>count\<close>
  entries. Two different ids of the same width never tie.
\<close>

definition GetClosestNodes_spec :: "string \<Rightarrow> string list \<Rightarrow> string \<Rightarrow> nat \<Rightarrow> string list" where
  "GetClosestNodes_spec local_id table target count =
     take count (sort_key (\<lambda>a. id_value a XOR id_value target)
       (filter (\<lambda>a. a \<noteq> local_id) table))"

text \<open>
  A node with one-byte ids whose routing table holds the ids 1, 3, 7, 15 and 31. Its
  identity is \<open>''L''\<close> and its connection id \<open>''C''\<close>; an id is empty when its string
  is, and valid when it has the key width. The codec knows a few request payloads by
  name. Admission, endpoint reservation and connection set-up succeed.
\<close>

definition example_table :: "string list" where
  "example_table = [[CHR 0x1F], [CHR 0x07], [CHR 0x01], [CHR 0x0F], [CHR 0x03]]"

definition example_peer_contact :: "(Endpoint, NatType) Contact" where
  "example_peer_contact =
     \<lparr>contact_node_id = ''P'', contact_connection_id = ''Q'', contact_nat_type = kUnknown,
      contact_private_endpoint = \<lparr>address = address_v4 0x0A000001, port = 5483\<rparr>,
      contact_public_endpoint = Endpoint_default\<rparr>"

definition example_endpoint_pair :: EndpointPair where
  "example_endpoint_pair =
     \<lparr>local_endpoint = \<lparr>address = address_v4 0x0A000002, port = 5483\<rparr>,
      external_endpoint = Endpoint_default\<rparr>"

definition example_ack ::
    "string \<Rightarrow> string \<Rightarrow> string \<Rightarrow> bool \<Rightarrow> string list \<Rightarrow> bool \<Rightarrow> Message" where
  "example_ack peer_id this_id this_connection_id is_requestor close_ids is_client =
     Clear\<lparr>destination_id := Some peer_id, source_id := Some this_id,
       data := [''ConnectSuccessAcknowledgement '' @ this_connection_id @ '' ''
                @ concat close_ids],
       direct := Some True, replication := Some 1, client_node := Some is_client,
       request := Some False, hops_to_live := Some 50\<rparr>"

definition is_set :: "'a option \<Rightarrow> bool" where
  "is_set x = (case x of None \<Rightarrow> False | Some v \<Rightarrow> True)"

definition example_env :: "(string, Endpoint, NatType) service_env" where
  "example_env =
     \<lparr>identity = ''L'', kNodeId = ''L'', kConnectionId = ''C'', client_mode = False,
      Parameters_hops_to_live = 50, Parameters_closest_nodes_size = 8, NDEBUG = False,
      GetTimeStamp = 1000,
      NodeId = (\<lambda>s. s), Empty = (\<lambda>i. i = []), IsValid = (\<lambda>i. length i = 1),
      String = (\<lambda>i. i),
      ParsePingRequest = (\<lambda>s. s = ''ping''),
      ParseConnectRequest = (\<lambda>s.
        if s = ''connect'' then Some \<lparr>request_contact = example_peer_contact\<rparr>
        else if s = ''connect unspecified'' then
          Some \<lparr>request_contact =
            example_peer_contact\<lparr>contact_private_endpoint := Endpoint_default\<rparr>\<rparr>
        else None),
      ParseFindNodesRequest = (\<lambda>s.
        if s = ''find 3'' then Some \<lparr>num_nodes_requested = 3, target_node = [CHR 0x00]\<rparr>
        else if s = ''find 65537'' then
          Some \<lparr>num_nodes_requested = 65537, target_node = [CHR 0x00]\<rparr>
        else None),
      ParseConnectSuccess = (\<lambda>s.
        if s = ''success requestor'' then
          Some \<lparr>success_node_id = ''P'', success_connection_id = ''Q'', requestor = True\<rparr>
        else if s = ''success responder'' then
          Some \<lparr>success_node_id = ''P'', success_connection_id = ''Q'', requestor = False\<rparr>
        else if s = ''success empty'' then
          Some \<lparr>success_node_id = [], success_connection_id = ''Q'', requestor = True\<rparr>
        else None),
      SerializePingResponse = (\<lambda>r. ''PingResponse '' @ ping_original_request r),
      SerializeConnectResponse = (\<lambda>r.
        (if answer r then ''ConnectResponse yes '' else ''ConnectResponse no '')
        @ connect_original_request r),
      SerializeFindNodesResponse = (\<lambda>r. ''FindNodesResponse '' @ concat (nodes r)),
      Message_IsInitialized = (\<lambda>m. is_set (request m) \<and> is_set (hops_to_live m)),
      FindNodesResponse_IsInitialized = (\<lambda>r. nodes r \<noteq> []),
      GetEndpointFromProtobuf = (\<lambda>e. e), SetProtobufEndpoint = (\<lambda>e. e),
      NatTypeProtobuf = (\<lambda>n. n),
      GetNthClosestNode = (\<lambda>t n. \<lparr>node_id = [CHR 0x1F], connection_id = [CHR 0x1F]\<rparr>),
      NonRoutingTable_CheckNode = (\<lambda>p f. True),
      RoutingTable_CheckNode = (\<lambda>p. True),
      GetAvailableEndpoint = (\<lambda>c p t n. (kSuccess, example_endpoint_pair, kOther)),
      AddToRudp = (\<lambda>a b c d e f g. kSuccess),
      GetClosestNodes = (\<lambda>t n. GetClosestNodes_spec ''L'' example_table t (unat n)),
      ConnectSuccessAcknoledgement = example_ack\<rparr>"

text \<open>An inbound request to that node from the node \<open>''S''\<close>, carrying one payload.\<close>

definition example_request :: "string \<Rightarrow> Message" where
  "example_request payload =
     \<lparr>destination_id = Some ''L'', source_id = Some ''S'', data = [payload],
      signature = Some ''sig'', direct = Some False, replication = Some 4,
      client_node = Some False, request = Some True, hops_to_live = Some 7,
      route_history = [''S'']\<rparr>"

section \<open>The concrete node, evaluated\<close>

lemma example_env_fields:
  "identity example_env = ''L''"
  "kNodeId example_env = ''L''"
  "kConnectionId example_env = ''C''"
  "client_mode example_env = False"
  "Parameters_hops_to_live example_env = 50"
  "Parameters_closest_nodes_size example_env = 8"
  "NDEBUG example_env = False"
  "GetTimeStamp example_env = 1000"
  "NodeId example_env = (\<lambda>s. s)"
  "Empty example_env = (\<lambda>i. i = [])"
  "IsValid example_env = (\<lambda>i. length i = 1)"
  "String example_env = (\<lambda>i. i)"
  "ParsePingRequest example_env = (\<lambda>s. s = ''ping'')"
  "SerializePingResponse example_env = (\<lambda>r. ''PingResponse '' @ ping_original_request r)"
  "SerializeConnectResponse example_env = (\<lambda>r.
        (if answer r then ''ConnectResponse yes '' else ''ConnectResponse no '')
        @ connect_original_request r)"
  "SerializeFindNodesResponse example_env = (\<lambda>r. ''FindNodesResponse '' @ concat (nodes r))"
  "Message_IsInitialized example_env = (\<lambda>m. is_set (request m) \<and> is_set (hops_to_live m))"
  "FindNodesResponse_IsInitialized example_env = (\<lambda>r. nodes r \<noteq> [])"
  "GetEndpointFromProtobuf example_env = (\<lambda>e. e)"
  "SetProtobufEndpoint example_env = (\<lambda>e. e)"
  "NatTypeProtobuf example_env = (\<lambda>n. n)"
  "GetNthClosestNode example_env =
     (\<lambda>t n. \<lparr>node_id = [CHR 0x1F], connection_id = [CHR 0x1F]\<rparr>)"
  "NonRoutingTable_CheckNode example_env = (\<lambda>p f. True)"
  "RoutingTable_CheckNode example_env = (\<lambda>p. True)"
  "GetAvailableEndpoint example_env = (\<lambda>c p t n. (kSuccess, example_endpoint_pair, kOther))"
  "AddToRudp example_env = (\<lambda>a b c d e f g. kSuccess)"
  "GetClosestNodes example_env = (\<lambda>t n. GetClosestNodes_spec ''L'' example_table t (unat n))"
  "ConnectSuccessAcknoledgement example_env = example_ack"
  by (simp_all add: example_env_def)

lemma example_env_parsers:
  "ParseConnectRequest example_env ''connect'' =
     Some \<lparr>request_contact = example_peer_contact\<rparr>"
  "ParseConnectRequest example_env ''connect unspecified'' =
     Some \<lparr>request_contact =
       example_peer_contact\<lparr>contact_private_endpoint := Endpoint_default\<rparr>\<rparr>"
  "ParseFindNodesRequest example_env ''find 3'' =
     Some \<lparr>num_nodes_requested = 3, target_node = [CHR 0x00]\<rparr>"
  "ParseFindNodesRequest example_env ''find 65537'' =
     Some \<lparr>num_nodes_requested = 65537, target_node = [CHR 0x00]\<rparr>"
  "ParseConnectSuccess example_env ''success requestor'' =
     Some \<lparr>success_node_id = ''P'', success_connection_id = ''Q'', requestor = True\<rparr>"
  "ParseConnectSuccess example_env ''success responder'' =
     Some \<lparr>success_node_id = ''P'', success_connection_id = ''Q'', requestor = False\<rparr>"
  "ParseConnectSuccess example_env ''success empty'' =
     Some \<lparr>success_node_id = [], success_connection_id = ''Q'', requestor = True\<rparr>"
  by (simp_all add: example_env_def)

lemma example_request_getters:
  "get_destination_id (example_request p) = ''L''"
  "get_source_id (example_request p) = ''S''"
  "has_source_id (example_request p)"
  "get_signature (example_request p) = ''sig''"
  "get_client_node (example_request p) = False"
  "data0 (example_request p) = Some p"
  by (simp_all add: example_request_def get_destination_id_def get_source_id_def
      has_source_id_def get_signature_def get_client_node_def data0_def)

lemma example_sorted:
  "sort_key (\<lambda>a. id_value a XOR id_value [CHR 0x00])
     (filter (\<lambda>a. a \<noteq> ''L'') example_table) =
   [[CHR 0x01], [CHR 0x03], [CHR 0x07], [CHR 0x0F], [CHR 0x1F]]"
  "sort_key (\<lambda>a. id_value a XOR id_value ''L'')
     (filter (\<lambda>a. a \<noteq> ''L'') example_table) =
   [[CHR 0x0F], [CHR 0x07], [CHR 0x01], [CHR 0x03], [CHR 0x1F]]"
  by code_simp+

lemma example_closest:
  "GetClosestNodes_spec ''L'' example_table [CHR 0x00] 2 = [[CHR 0x01], [CHR 0x03]]"
  "GetClosestNodes_spec ''L'' example_table [CHR 0x00] 0 = []"
  "GetClosestNodes_spec ''L'' example_table [CHR 0x00] 65536 =
     [[CHR 0x01], [CHR 0x03], [CHR 0x07], [CHR 0x0F], [CHR 0x1F]]"
  "GetClosestNodes_spec ''L'' example_table ''L'' 8 =
     [[CHR 0x0F], [CHR 0x07], [CHR 0x01], [CHR 0x03], [CHR 0x1F]]"
  by (simp_all add: GetClosestNodes_spec_def example_sorted)

section \<open>How the handlers run\<close>

text \<open>
  Copying an optional source id into the destination: set when the source is set,
  cleared when it is not.
\<close>

lemma destination_copy:
  "(if has_source_id message then Some (get_source_id message) else None) = source_id message"
  by (simp add: has_source_id_def get_source_id_def split: option.splits)

text \<open>
  The end of \<^verbatim>\<open>Connect\<close>, when \<^verbatim>\<open>assert\<close> is compiled out or the envelope is
  initialised.
\<close>

lemma Connect_reply_envelope:
  assumes "NDEBUG env \<or> Message_IsInitialized env (Connect_envelope env message d r)"
  shows "Connect_reply env message d r log = (Inr (Connect_envelope env message d r), log)"
  using assms
  by (auto simp add: Connect_reply_def Connect_envelope_def assert_initialized_def Let_def)

lemma Connect_envelope_fields:
  "data (Connect_envelope env message d r) = [SerializeConnectResponse env
     (r\<lparr>connect_timestamp := GetTimeStamp env, connect_original_request := d,
        connect_original_signature := get_signature message\<rparr>)]"
  "route_history (Connect_envelope env message d r) = []"
  "direct (Connect_envelope env message d r) = Some True"
  "replication (Connect_envelope env message d r) = Some 1"
  "client_node (Connect_envelope env message d r) = Some (client_mode env)"
  "request (Connect_envelope env message d r) = Some False"
  "hops_to_live (Connect_envelope env message d r) = Some (Parameters_hops_to_live env)"
  "destination_id (Connect_envelope env message d r) =
     (if has_source_id message then Some (get_source_id message) else None)"
  "source_id (Connect_envelope env message d r) = Some (identity env)"
  by (simp_all add: Connect_envelope_def)

text \<open>
  \<^verbatim>\<open>Connect\<close> past its three early returns, with the answers of the admission check and
  of \<^verbatim>\<open>GetAvailableEndpoint\<close> named.
\<close>

lemma Connect_unfold:
  assumes "get_destination_id message = identity env"
      and "data0 message = Some d"
      and "ParseConnectRequest env d = Some connect_request"
      and "\<not> both_unspecified (peer_endpoint_pair_of env connect_request)"
      and "check_node env message (peer_node_of env connect_request) = (admitted, log)"
      and "GetAvailableEndpoint env (connection_id (peer_node_of env connect_request))
             (peer_endpoint_pair_of env connect_request) EndpointPair_default kUnknown =
           (ret_val, this_endpoint_pair, this_nat_type)"
  shows "Connect env message =
     (if admitted then
        (if ret_val \<noteq> kSuccess then
           (Inr Clear, log @ [Call_GetAvailableEndpoint
              (connection_id (peer_node_of env connect_request))
              (peer_endpoint_pair_of env connect_request)])
         else if \<not> NDEBUG env \<and> both_unspecified this_endpoint_pair then
           (Inl AssertionFailed, log @ [Call_GetAvailableEndpoint
              (connection_id (peer_node_of env connect_request))
              (peer_endpoint_pair_of env connect_request)])
         else Connect_reply env message d
           (if kSuccess = AddToRudp env (kNodeId env) (kConnectionId env)
                 (node_id (peer_node_of env connect_request))
                 (connection_id (peer_node_of env connect_request))
                 (peer_endpoint_pair_of env connect_request) False (client_mode env)
            then connect_response_true env this_endpoint_pair this_nat_type
            else connect_response_false)
           (log @ [Call_GetAvailableEndpoint
              (connection_id (peer_node_of env connect_request))
              (peer_endpoint_pair_of env connect_request),
             Call_AddToRudp (kNodeId env) (kConnectionId env)
               (node_id (peer_node_of env connect_request))
               (connection_id (peer_node_of env connect_request))
               (peer_endpoint_pair_of env connect_request) False (client_mode env)]))
      else Connect_reply env message d connect_response_false log)"
  using assms by (simp add: Connect_def Let_def)

text \<open>
  \<^verbatim>\<open>Connect\<close> answers unless the peer is admitted and no endpoint is available.
\<close>

lemma Connect_answers:
  assumes "get_destination_id message = identity env"
      and "data0 message = Some d"
      and "ParseConnectRequest env d = Some connect_request"
      and "\<not> both_unspecified (peer_endpoint_pair_of env connect_request)"
      and "check_node env message (peer_node_of env connect_request) = (admitted, log)"
      and "GetAvailableEndpoint env (connection_id (peer_node_of env connect_request))
             (peer_endpoint_pair_of env connect_request) EndpointPair_default kUnknown =
           (ret_val, this_endpoint_pair, this_nat_type)"
      and answered: "\<not> (admitted \<and> ret_val \<noteq> kSuccess)"
      and endpoint: "NDEBUG env \<or> \<not> (admitted \<and> both_unspecified this_endpoint_pair)"
      and init: "NDEBUG env \<or> (\<forall>r. Message_IsInitialized env (Connect_envelope env message d r))"
  shows "\<exists>r log'. Connect env message = (Inr (Connect_envelope env message d r), log')"
proof -
  note unfold = Connect_unfold [OF assms(1-6)]
  have reply: "Connect_reply env message d r l = (Inr (Connect_envelope env message d r), l)"
    for r l
    using init by (intro Connect_reply_envelope) auto
  show ?thesis
  proof (cases admitted)
    case False
    with unfold reply
    have "Connect env message =
        (Inr (Connect_envelope env message d connect_response_false), log)"
      by simp
    then show ?thesis by blast
  next
    case True
    with answered have ok: "ret_val = kSuccess" by simp
    from True endpoint have "NDEBUG env \<or> \<not> both_unspecified this_endpoint_pair"
      by blast
    with unfold reply True ok
    obtain r l where "Connect env message = (Inr (Connect_envelope env message d r), l)"
      by (cases "NDEBUG env") simp_all
    then show ?thesis by blast
  qed
qed

text \<open>
  \<^verbatim>\<open>FindNodes\<close> on a request it accepts, when \<^verbatim>\<open>assert\<close> is compiled out or the
  response and the envelope are initialised.
\<close>

lemma FindNodes_reply:
  assumes "data0 message = Some d"
      and "ParseFindNodesRequest env d = Some find_nodes"
      and "num_nodes_requested find_nodes \<noteq> 0"
      and "\<not> Empty env (NodeId env (target_node find_nodes))"
      and "IsValid env (NodeId env (target_node find_nodes))"
      and "NDEBUG env \<or>
           FindNodesResponse_IsInitialized env (FindNodes_found_nodes env message d find_nodes) \<and>
           Message_IsInitialized env
             (FindNodes_envelope env message (FindNodes_found_nodes env message d find_nodes))"
  shows "FindNodes env message =
           (Inr (FindNodes_envelope env message (FindNodes_found_nodes env message d find_nodes)),
            [Call_GetClosestNodes (NodeId env (target_node find_nodes))
               (ucast (num_nodes_requested find_nodes - 1))])"
  using assms
  by (auto simp add: FindNodes_def FindNodes_envelope_def FindNodes_found_nodes_def Let_def
      assert_initialized_def)

text \<open>
  The cast of the count: up to 65536 requested nodes, the 16-bit count is the number
  requested less one.
\<close>

lemma count_truncation:
  fixes n :: "32 word"
  assumes "0 < n" "n \<le> 65536"
  shows "unat (ucast (n - 1) :: 16 word) = unat n - 1"
proof -
  from assms(1) have nz: "n \<noteq> 0" by auto
  then have a: "unat (n - 1) = unat n - 1" by (rule unat_minus_one)
  from assms(2) have "unat n \<le> 65536" by (simp add: word_le_nat_alt)
  moreover from nz have "unat n \<noteq> 0" by (simp add: unat_eq_0)
  ultimately have b: "unat n - 1 < 65536" by arith
  have "unat (ucast (n - 1) :: 16 word) = unat (n - 1) mod 2 ^ 16"
    by (simp add: unsigned_ucast_eq take_bit_eq_mod)
  with a b show ?thesis by simp
qed

text \<open>The concrete node answering a connect request and a find-nodes request.\<close>

lemma example_connect_locals:
  "peer_node_of example_env \<lparr>request_contact = example_peer_contact\<rparr> =
     \<lparr>node_id = ''P'', connection_id = ''Q''\<rparr>"
  "peer_endpoint_pair_of example_env \<lparr>request_contact = example_peer_contact\<rparr> =
     \<lparr>local_endpoint = \<lparr>address = address_v4 0x0A000001, port = 5483\<rparr>,
      external_endpoint = Endpoint_default\<rparr>"
  "\<not> both_unspecified \<lparr>local_endpoint = \<lparr>address = address_v4 0x0A000001, port = 5483\<rparr>,
      external_endpoint = Endpoint_default\<rparr>"
  "\<not> both_unspecified example_endpoint_pair"
  by (simp_all add: peer_node_of_def peer_endpoint_pair_of_def both_unspecified_def
      example_env_fields example_peer_contact_def example_endpoint_pair_def)

lemma example_Connect:
  "Connect example_env ((example_request ''connect'')\<lparr>source_id := s\<rparr>) =
     (Inr \<lparr>destination_id = s, source_id = Some ''L'',
        data = [''ConnectResponse yes connect''], signature = Some ''sig'',
        direct = Some True, replication = Some 1, client_node = Some False,
        request = Some False, hops_to_live = Some 50, route_history = []\<rparr>,
      [Call_RoutingTable_CheckNode \<lparr>node_id = ''P'', connection_id = ''Q''\<rparr>,
       Call_GetAvailableEndpoint ''Q''
         \<lparr>local_endpoint = \<lparr>address = address_v4 0x0A000001, port = 5483\<rparr>,
          external_endpoint = Endpoint_default\<rparr>,
       Call_AddToRudp ''L'' ''C'' ''P'' ''Q''
         \<lparr>local_endpoint = \<lparr>address = address_v4 0x0A000001, port = 5483\<rparr>,
          external_endpoint = Endpoint_default\<rparr> False False])"
  by (simp add: Connect_def Let_def example_env_parsers example_connect_locals
      check_node_def Connect_reply_def assert_initialized_def connect_response_true_def
      connect_response_false_def example_env_fields is_set_def destination_copy
      example_request_def get_destination_id_def data0_def get_client_node_def
      get_signature_def)

lemma example_FindNodes:
  "FindNodes example_env ((example_request ''find 3'')\<lparr>source_id := s\<rparr>) =
     (Inr \<lparr>destination_id = s, source_id = Some ''L'',
        data = [SerializeFindNodesResponse example_env
          \<lparr>nodes = [''L'', [CHR 0x01], [CHR 0x03]], found_original_request = ''find 3'',
           found_original_signature = ''sig'', found_timestamp = 1000\<rparr>],
        signature = Some ''sig'', direct = Some True, replication = Some 1,
        client_node = Some False, request = Some False, hops_to_live = Some 50,
        route_history = []\<rparr>,
      [Call_GetClosestNodes [CHR 0x00] 2])"
  by (simp add: FindNodes_def Let_def example_env_parsers assert_initialized_def
      example_env_fields is_set_def destination_copy example_closest
      example_request_def data0_def get_signature_def)

section \<open>Ping\<close>

text \<open>
  C4. A message for the local node whose first data element parses as a ping request
  comes back as the reply: its only data element is the serialised
  \<open>PingResponse\<close> with \<open>pong\<close> true, the request bytes, the inbound signature and
  the time stamp; the route history is empty; the destination is set to the value of the
  inbound source id and the source to the local identity; \<open>request\<close> is false and
  \<open>hops_to_live\<close> is the parameter. No collaborator is called. The environment is
  one where \<^verbatim>\<open>assert\<close> is compiled out or the reply envelope is initialised.
\<close>

theorem Ping_builds_reply:
  assumes "get_destination_id message = identity env"
      and "data0 message = Some d"
      and "ParsePingRequest env d"
      and "NDEBUG env \<or> Message_IsInitialized env (Ping_envelope env message d)"
  shows "\<exists>m'. Ping env message = (Inr m', []) \<and>
           data m' = [SerializePingResponse env
             \<lparr>pong = True, ping_original_request = d,
              ping_original_signature = get_signature message,
              ping_timestamp = GetTimeStamp env\<rparr>] \<and>
           route_history m' = [] \<and>
           destination_id m' = Some (get_source_id message) \<and>
           source_id m' = Some (identity env) \<and>
           request m' = Some False \<and>
           hops_to_live m' = Some (Parameters_hops_to_live env)"
  using assms
  by (auto simp add: Ping_def Ping_envelope_def assert_initialized_def Let_def)

theorem Ping_builds_reply_witness:
  "get_destination_id (example_request ''ping'') = identity example_env \<and>
   data0 (example_request ''ping'') = Some ''ping'' \<and>
   ParsePingRequest example_env ''ping'' \<and>
   Message_IsInitialized example_env
     (Ping_envelope example_env (example_request ''ping'') ''ping'') \<and>
   (\<exists>m'. Ping example_env (example_request ''ping'') = (Inr m', []) \<and>
      data m' = [''PingResponse ping''] \<and> route_history m' = [] \<and>
      destination_id m' = Some ''S'' \<and> source_id m' = Some ''L'' \<and>
      request m' = Some False \<and> hops_to_live m' = Some 50)"
proof -
  have h1: "get_destination_id (example_request ''ping'') = identity example_env"
    by (simp add: example_request_getters example_env_fields)
  have h2: "data0 (example_request ''ping'') = Some ''ping''"
    by (simp add: example_request_getters)
  have h3: "ParsePingRequest example_env ''ping''"
    by (simp add: example_env_fields)
  have h4: "Message_IsInitialized example_env
      (Ping_envelope example_env (example_request ''ping'') ''ping'')"
    by (simp add: Ping_envelope_def example_env_fields is_set_def)
  from Ping_builds_reply [OF h1 h2 h3 disjI2 [OF h4]] h1 h2 h3 h4 show ?thesis
    by (simp add: example_env_fields example_request_getters)
qed

text \<open>
  C7. On the concrete node, a message addressed to it whose first data element is not a
  ping request: \<^verbatim>\<open>Ping\<close> returns the envelope as it came, which is not the cleared
  envelope. The branch returns without \<^verbatim>\<open>message.Clear()\<close>.
\<close>

theorem Ping_unparsed_not_cleared:
  "get_destination_id (example_request ''garbage'') = identity example_env \<and>
   \<not> ParsePingRequest example_env ''garbage'' \<and>
   Ping example_env (example_request ''garbage'') = (Inr (example_request ''garbage''), []) \<and>
   example_request ''garbage'' \<noteq> Clear"
  by (simp add: Ping_def example_request_getters example_env_fields)
     (simp add: example_request_def Clear_def)

text \<open>
  C9. For every environment and every message, \<^verbatim>\<open>Ping\<close> calls no collaborator at all,
  and \<^verbatim>\<open>FindNodes\<close> makes no call that changes a table or the transport (no
  pending-node operation, no endpoint reservation, no connection set-up, no send): it
  makes no call, or the one closest-nodes query.
\<close>

theorem Ping_FindNodes_no_mutation:
  "snd (Ping env message) = [] \<and>
   filter mutating (snd (FindNodes env message)) = [] \<and>
   (snd (FindNodes env message) = [] \<or>
    (\<exists>target count. snd (FindNodes env message) = [Call_GetClosestNodes target count]))"
  by (simp add: Ping_def FindNodes_def assert_initialized_def Let_def
      split: option.splits)

section \<open>The destination check\<close>

text \<open>
  C2, as stated, fails: on the concrete node, \<^verbatim>\<open>FindNodes\<close> answers a request whose
  destination is another node, and \<^verbatim>\<open>ConnectSuccess\<close> adds the peer of such a message to
  the pending nodes. Neither handler compares the destination with the local identity.
\<close>

theorem destination_not_checked_counterexample:
  "get_destination_id ((example_request ''find 3'')\<lparr>destination_id := Some ''X''\<rparr>)
     \<noteq> identity example_env \<and>
   FindNodes example_env ((example_request ''find 3'')\<lparr>destination_id := Some ''X''\<rparr>) =
     (Inr \<lparr>destination_id = Some ''S'', source_id = Some ''L'',
        data = [SerializeFindNodesResponse example_env
          \<lparr>nodes = [''L'', [CHR 0x01], [CHR 0x03]], found_original_request = ''find 3'',
           found_original_signature = ''sig'', found_timestamp = 1000\<rparr>],
        signature = Some ''sig'', direct = Some True, replication = Some 1,
        client_node = Some False, request = Some False, hops_to_live = Some 50,
        route_history = []\<rparr>,
      [Call_GetClosestNodes [CHR 0x00] 2]) \<and>
   get_destination_id ((example_request ''success requestor'')\<lparr>destination_id := Some ''X''\<rparr>)
     \<noteq> identity example_env \<and>
   ConnectSuccess example_env
       ((example_request ''success requestor'')\<lparr>destination_id := Some ''X''\<rparr>) =
     (Inr Clear, [Call_AddPendingNode \<lparr>node_id = ''P'', connection_id = ''Q''\<rparr>])"
  by (simp add: FindNodes_def ConnectSuccess_def ConnectSuccessFromRequester_def
      assert_initialized_def Let_def example_env_fields example_env_parsers
      example_closest is_set_def example_request_def get_destination_id_def data0_def
      get_signature_def has_source_id_def get_source_id_def)

text \<open>
  C2, amended. \<^verbatim>\<open>Ping\<close> and \<^verbatim>\<open>Connect\<close>, on a message whose destination is not the
  local identity, return the cleared envelope and call no collaborator.
  \<^verbatim>\<open>FindNodes\<close> does not read the destination: its result is the same whatever it is; nor
  do the calls of \<^verbatim>\<open>ConnectSuccess\<close> depend on it.
\<close>

theorem destination_mismatch_dropped:
  assumes "get_destination_id message \<noteq> identity env"
  shows "Ping env message = (Inr Clear, []) \<and>
         Connect env message = (Inr Clear, []) \<and>
         FindNodes env (message\<lparr>destination_id := x\<rparr>) = FindNodes env message \<and>
         snd (ConnectSuccess env (message\<lparr>destination_id := x\<rparr>)) =
           snd (ConnectSuccess env message)"
  using assms
  by (simp add: Ping_def Connect_def FindNodes_def ConnectSuccess_def data0_def
      get_signature_def has_source_id_def get_source_id_def Let_def
      split: option.splits list.splits)

theorem destination_mismatch_dropped_witness:
  "get_destination_id ((example_request ''ping'')\<lparr>destination_id := Some ''X''\<rparr>)
     \<noteq> identity example_env \<and>
   Ping example_env ((example_request ''ping'')\<lparr>destination_id := Some ''X''\<rparr>) =
     (Inr Clear, []) \<and>
   Connect example_env ((example_request ''ping'')\<lparr>destination_id := Some ''X''\<rparr>) =
     (Inr Clear, [])"
proof -
  have h: "get_destination_id ((example_request ''ping'')\<lparr>destination_id := Some ''X''\<rparr>)
     \<noteq> identity example_env"
    by (simp add: get_destination_id_def example_env_fields)
  from destination_mismatch_dropped [OF h] h show ?thesis by simp
qed

section \<open>Connect\<close>

text \<open>
  C6. A connect request whose advertised public and private endpoints are both
  unspecified is dropped: the envelope comes back cleared and no collaborator has been
  called (no admission check, no transport call, no table operation).
\<close>

theorem Connect_unspecified_endpoints_dropped:
  assumes "data0 message = Some d"
      and "ParseConnectRequest env d = Some connect_request"
      and "both_unspecified (peer_endpoint_pair_of env connect_request)"
  shows "Connect env message = (Inr Clear, [])"
  using assms by (simp add: Connect_def Let_def)

theorem Connect_unspecified_endpoints_dropped_witness:
  "data0 (example_request ''connect unspecified'') = Some ''connect unspecified'' \<and>
   ParseConnectRequest example_env ''connect unspecified'' =
     Some \<lparr>request_contact =
       example_peer_contact\<lparr>contact_private_endpoint := Endpoint_default\<rparr>\<rparr> \<and>
   both_unspecified (peer_endpoint_pair_of example_env
     \<lparr>request_contact =
       example_peer_contact\<lparr>contact_private_endpoint := Endpoint_default\<rparr>\<rparr>) \<and>
   get_destination_id (example_request ''connect unspecified'') = identity example_env \<and>
   Connect example_env (example_request ''connect unspecified'') = (Inr Clear, [])"
proof -
  have h1: "data0 (example_request ''connect unspecified'') = Some ''connect unspecified''"
    by (simp add: example_request_getters)
  have h2: "ParseConnectRequest example_env ''connect unspecified'' =
     Some \<lparr>request_contact =
       example_peer_contact\<lparr>contact_private_endpoint := Endpoint_default\<rparr>\<rparr>"
    by (simp add: example_env_parsers)
  have h3: "both_unspecified (peer_endpoint_pair_of example_env
     \<lparr>request_contact =
       example_peer_contact\<lparr>contact_private_endpoint := Endpoint_default\<rparr>\<rparr>)"
    by (simp add: both_unspecified_def peer_endpoint_pair_of_def example_env_fields
        example_peer_contact_def Endpoint_default_def)
  from Connect_unspecified_endpoints_dropped [OF h1 h2 h3] h1 h2 h3 show ?thesis
    by (simp add: example_request_getters example_env_fields)
qed

text \<open>
  C1, as stated, fails on a relayed request: on the concrete node, a connect request
  that has no source id is answered (answer true, with the contact block), and the
  destination of the response is cleared, not set.
\<close>

theorem Connect_relayed_counterexample:
  "get_destination_id ((example_request ''connect'')\<lparr>source_id := None\<rparr>) =
     identity example_env \<and>
   ParseConnectRequest example_env ''connect'' =
     Some \<lparr>request_contact = example_peer_contact\<rparr> \<and>
   \<not> both_unspecified
       (peer_endpoint_pair_of example_env \<lparr>request_contact = example_peer_contact\<rparr>) \<and>
   Connect example_env ((example_request ''connect'')\<lparr>source_id := None\<rparr>) =
     (Inr \<lparr>destination_id = None, source_id = Some ''L'',
        data = [SerializeConnectResponse example_env
          \<lparr>answer = True,
           response_contact = Some
             \<lparr>contact_node_id = ''L'', contact_connection_id = ''C'',
              contact_nat_type = kOther,
              contact_private_endpoint = local_endpoint example_endpoint_pair,
              contact_public_endpoint = external_endpoint example_endpoint_pair\<rparr>,
           connect_timestamp = 1000, connect_original_request = ''connect'',
           connect_original_signature = ''sig''\<rparr>],
        signature = Some ''sig'', direct = Some True, replication = Some 1,
        client_node = Some False, request = Some False, hops_to_live = Some 50,
        route_history = []\<rparr>,
      [Call_RoutingTable_CheckNode \<lparr>node_id = ''P'', connection_id = ''Q''\<rparr>,
       Call_GetAvailableEndpoint ''Q''
         \<lparr>local_endpoint = \<lparr>address = address_v4 0x0A000001, port = 5483\<rparr>,
          external_endpoint = Endpoint_default\<rparr>,
       Call_AddToRudp ''L'' ''C'' ''P'' ''Q''
         \<lparr>local_endpoint = \<lparr>address = address_v4 0x0A000001, port = 5483\<rparr>,
          external_endpoint = Endpoint_default\<rparr> False False]) \<and>
   None \<noteq> Some (get_source_id ((example_request ''connect'')\<lparr>source_id := None\<rparr>))"
proof (intro conjI)
  show "get_destination_id ((example_request ''connect'')\<lparr>source_id := None\<rparr>) =
      identity example_env"
    by (simp add: get_destination_id_def example_request_def example_env_fields)
  show "ParseConnectRequest example_env ''connect'' =
      Some \<lparr>request_contact = example_peer_contact\<rparr>"
    by (simp add: example_env_parsers)
  show "\<not> both_unspecified
      (peer_endpoint_pair_of example_env \<lparr>request_contact = example_peer_contact\<rparr>)"
    by (simp add: example_connect_locals)
  show "None \<noteq> Some (get_source_id ((example_request ''connect'')\<lparr>source_id := None\<rparr>))"
    by simp
qed (simp add: example_Connect example_env_fields)

text \<open>
  C1, amended. A message for the local node carrying a connect request with a specified
  endpoint. \<open>admitted\<close> is the answer of the admission check (the non-routing table's
  for a client, the routing table's otherwise), \<open>ret_val\<close> that of
  \<^verbatim>\<open>GetAvailableEndpoint\<close> and \<open>add_result\<close> that of \<^verbatim>\<open>AddToRudp\<close>. When the peer is
  admitted and no endpoint is available, the envelope is cleared and there is no
  response. Otherwise the envelope carries the serialised response, whose answer is true
  exactly when all three succeeded, and which then, and only then, has the local contact
  block (node id, connection id, NAT type, private and public endpoint); in both cases it
  has the request bytes, the inbound signature and the time stamp, and the envelope has
  \<open>direct\<close> true, \<open>replication\<close> 1, \<open>request\<close> false, and a destination that is
  set to the inbound source id when the request has one and cleared when it has none.
  The environment is one where \<^verbatim>\<open>assert\<close> is compiled out, or where an endpoint
  pair that \<^verbatim>\<open>GetAvailableEndpoint\<close> returns with success has a specified endpoint and
  the finalised envelope is initialised.
\<close>

theorem Connect_response:
  assumes dest: "get_destination_id message = identity env"
      and d: "data0 message = Some d"
      and parse: "ParseConnectRequest env d = Some connect_request"
      and ep: "\<not> both_unspecified (peer_endpoint_pair_of env connect_request)"
      and chk: "check_node env message (peer_node_of env connect_request) = (admitted, log)"
      and avail: "GetAvailableEndpoint env (connection_id (peer_node_of env connect_request))
                    (peer_endpoint_pair_of env connect_request) EndpointPair_default kUnknown =
                  (ret_val, this_endpoint_pair, this_nat_type)"
      and add: "AddToRudp env (kNodeId env) (kConnectionId env)
                  (node_id (peer_node_of env connect_request))
                  (connection_id (peer_node_of env connect_request))
                  (peer_endpoint_pair_of env connect_request) False (client_mode env) =
                add_result"
      and endpoint: "NDEBUG env \<or>
                  \<not> (admitted \<and> ret_val = kSuccess \<and> both_unspecified this_endpoint_pair)"
      and init: "NDEBUG env \<or> (\<forall>r. Message_IsInitialized env (Connect_envelope env message d r))"
  shows "\<exists>m' log'. Connect env message = (Inr m', log') \<and>
           (if admitted \<and> ret_val \<noteq> kSuccess then m' = Clear
            else
              data m' = [SerializeConnectResponse env
                \<lparr>answer = (admitted \<and> ret_val = kSuccess \<and> add_result = kSuccess),
                 response_contact =
                   (if admitted \<and> ret_val = kSuccess \<and> add_result = kSuccess then
                      Some \<lparr>contact_node_id = String env (kNodeId env),
                            contact_connection_id = String env (kConnectionId env),
                            contact_nat_type = NatTypeProtobuf env this_nat_type,
                            contact_private_endpoint =
                              SetProtobufEndpoint env (local_endpoint this_endpoint_pair),
                            contact_public_endpoint =
                              SetProtobufEndpoint env (external_endpoint this_endpoint_pair)\<rparr>
                    else None),
                 connect_timestamp = GetTimeStamp env,
                 connect_original_request = d,
                 connect_original_signature = get_signature message\<rparr>] \<and>
              direct m' = Some True \<and> replication m' = Some 1 \<and>
              request m' = Some False \<and>
              destination_id m' =
                (if has_source_id message then Some (get_source_id message) else None))"
proof -
  note unfold = Connect_unfold [OF dest d parse ep chk avail]
  have reply: "Connect_reply env message d r l = (Inr (Connect_envelope env message d r), l)"
    for r l
    using init by (intro Connect_reply_envelope) auto
  consider (refused) "\<not> admitted"
    | (no_endpoint) "admitted" "ret_val \<noteq> kSuccess"
    | (added) "admitted" "ret_val = kSuccess" "add_result = kSuccess"
    | (not_added) "admitted" "ret_val = kSuccess" "add_result \<noteq> kSuccess"
    by blast
  then show ?thesis
  proof cases
    case refused
    with unfold reply show ?thesis
      by (simp add: Connect_envelope_fields connect_response_false_def)
  next
    case no_endpoint
    with unfold show ?thesis by simp
  next
    case added
    with endpoint have "NDEBUG env \<or> \<not> both_unspecified this_endpoint_pair" by blast
    with unfold reply added add show ?thesis
      by (auto simp add: Connect_envelope_fields connect_response_true_def
          connect_response_false_def)
  next
    case not_added
    with endpoint have "NDEBUG env \<or> \<not> both_unspecified this_endpoint_pair" by blast
    with unfold reply not_added add show ?thesis
      by (auto simp add: Connect_envelope_fields connect_response_false_def)
  qed
qed

theorem Connect_response_witness:
  "get_destination_id (example_request ''connect'') = identity example_env \<and>
   data0 (example_request ''connect'') = Some ''connect'' \<and>
   ParseConnectRequest example_env ''connect'' =
     Some \<lparr>request_contact = example_peer_contact\<rparr> \<and>
   \<not> both_unspecified
       (peer_endpoint_pair_of example_env \<lparr>request_contact = example_peer_contact\<rparr>) \<and>
   check_node example_env (example_request ''connect'')
       (peer_node_of example_env \<lparr>request_contact = example_peer_contact\<rparr>) =
     (True, [Call_RoutingTable_CheckNode \<lparr>node_id = ''P'', connection_id = ''Q''\<rparr>]) \<and>
   \<not> both_unspecified example_endpoint_pair \<and>
   (\<forall>r. Message_IsInitialized example_env
      (Connect_envelope example_env (example_request ''connect'') ''connect'' r)) \<and>
   (\<exists>m' log'. Connect example_env (example_request ''connect'') = (Inr m', log') \<and>
      data m' = [SerializeConnectResponse example_env
        \<lparr>answer = True,
         response_contact = Some
           \<lparr>contact_node_id = ''L'', contact_connection_id = ''C'',
            contact_nat_type = kOther,
            contact_private_endpoint = local_endpoint example_endpoint_pair,
            contact_public_endpoint = external_endpoint example_endpoint_pair\<rparr>,
         connect_timestamp = 1000, connect_original_request = ''connect'',
         connect_original_signature = ''sig''\<rparr>] \<and>
      direct m' = Some True \<and> replication m' = Some 1 \<and> request m' = Some False \<and>
      destination_id m' = Some ''S'')"
proof -
  let ?m = "example_request ''connect''"
  let ?r = "\<lparr>request_contact = example_peer_contact\<rparr>"
  have h1: "get_destination_id ?m = identity example_env"
    by (simp add: example_request_getters example_env_fields)
  have h2: "data0 ?m = Some ''connect''"
    by (simp add: example_request_getters)
  have h3: "ParseConnectRequest example_env ''connect'' = Some ?r"
    by (simp add: example_env_parsers)
  have h4: "\<not> both_unspecified (peer_endpoint_pair_of example_env ?r)"
    by (simp add: example_connect_locals)
  have h5: "check_node example_env ?m (peer_node_of example_env ?r) =
      (True, [Call_RoutingTable_CheckNode \<lparr>node_id = ''P'', connection_id = ''Q''\<rparr>])"
    by (simp add: check_node_def example_request_getters example_env_fields
        example_connect_locals)
  have h6: "GetAvailableEndpoint example_env (connection_id (peer_node_of example_env ?r))
       (peer_endpoint_pair_of example_env ?r) EndpointPair_default kUnknown =
     (kSuccess, example_endpoint_pair, kOther)"
    by (simp add: example_env_fields)
  have h7: "AddToRudp example_env (kNodeId example_env) (kConnectionId example_env)
       (node_id (peer_node_of example_env ?r)) (connection_id (peer_node_of example_env ?r))
       (peer_endpoint_pair_of example_env ?r) False (client_mode example_env) = kSuccess"
    by (simp add: example_env_fields)
  have e: "\<not> both_unspecified example_endpoint_pair"
    by (simp add: example_connect_locals)
  then have h8: "NDEBUG example_env \<or>
      \<not> (True \<and> kSuccess = kSuccess \<and> both_unspecified example_endpoint_pair)"
    by simp
  have i: "\<forall>r. Message_IsInitialized example_env (Connect_envelope example_env ?m ''connect'' r)"
    by (simp add: Connect_envelope_def example_env_fields is_set_def)
  then have h9: "NDEBUG example_env \<or>
      (\<forall>r. Message_IsInitialized example_env (Connect_envelope example_env ?m ''connect'' r))"
    by simp
  from Connect_response [OF h1 h2 h3 h4 h5 h6 h7 h8 h9]
  obtain m' log' where run: "Connect example_env ?m = (Inr m', log')"
    and reply: "data m' = [SerializeConnectResponse example_env
        \<lparr>answer = True,
         response_contact = Some
           \<lparr>contact_node_id = ''L'', contact_connection_id = ''C'',
            contact_nat_type = kOther,
            contact_private_endpoint = local_endpoint example_endpoint_pair,
            contact_public_endpoint = external_endpoint example_endpoint_pair\<rparr>,
         connect_timestamp = 1000, connect_original_request = ''connect'',
         connect_original_signature = ''sig''\<rparr>]"
      "direct m' = Some True" "replication m' = Some 1" "request m' = Some False"
      "destination_id m' = (if has_source_id ?m then Some (get_source_id ?m) else None)"
    by (auto simp add: example_env_fields example_request_getters)
  from reply(5) have "destination_id m' = Some ''S''"
    by (simp add: example_request_getters)
  with run reply(1-4) h1 h2 h3 h4 h5 e i show ?thesis by blast
qed

text \<open>
  C10. \<^verbatim>\<open>Connect\<close> (on a request it answers) and \<^verbatim>\<open>FindNodes\<close> (on a request it
  accepts) build their response whether or not the inbound message has a source id; the
  destination of the response is set to the source id when there is one and cleared when
  there is none. Each handler has its own conditions, and each half holds on its own.
  The environment is one where \<^verbatim>\<open>assert\<close> is compiled out or what the handler's
  assertions examine holds.
\<close>

theorem relayed_request_destination:
  "(get_destination_id cm = identity env \<and>
    data0 cm = Some cd \<and>
    ParseConnectRequest env cd = Some connect_request \<and>
    \<not> both_unspecified (peer_endpoint_pair_of env connect_request) \<and>
    check_node env cm (peer_node_of env connect_request) = (admitted, log) \<and>
    GetAvailableEndpoint env (connection_id (peer_node_of env connect_request))
        (peer_endpoint_pair_of env connect_request) EndpointPair_default kUnknown =
      (ret_val, this_endpoint_pair, this_nat_type) \<and>
    \<not> (admitted \<and> ret_val \<noteq> kSuccess) \<and>
    (NDEBUG env \<or> \<not> (admitted \<and> both_unspecified this_endpoint_pair)) \<and>
    (NDEBUG env \<or> (\<forall>r. Message_IsInitialized env (Connect_envelope env cm cd r)))
    \<longrightarrow>
    (\<exists>m' log' r. Connect env cm = (Inr m', log') \<and>
       data m' = [SerializeConnectResponse env r] \<and>
       source_id m' = Some (identity env) \<and>
       destination_id m' =
         (if has_source_id cm then Some (get_source_id cm) else None))) \<and>
   (data0 fm = Some fd \<and>
    ParseFindNodesRequest env fd = Some find_nodes \<and>
    num_nodes_requested find_nodes \<noteq> 0 \<and>
    \<not> Empty env (NodeId env (target_node find_nodes)) \<and>
    IsValid env (NodeId env (target_node find_nodes)) \<and>
    (NDEBUG env \<or>
     FindNodesResponse_IsInitialized env (FindNodes_found_nodes env fm fd find_nodes) \<and>
     Message_IsInitialized env
       (FindNodes_envelope env fm (FindNodes_found_nodes env fm fd find_nodes)))
    \<longrightarrow>
    (\<exists>m' log' r. FindNodes env fm = (Inr m', log') \<and>
       data m' = [SerializeFindNodesResponse env r] \<and>
       source_id m' = Some (identity env) \<and>
       destination_id m' =
         (if has_source_id fm then Some (get_source_id fm) else None)))"
proof (intro conjI impI)
  assume "get_destination_id cm = identity env \<and>
    data0 cm = Some cd \<and>
    ParseConnectRequest env cd = Some connect_request \<and>
    \<not> both_unspecified (peer_endpoint_pair_of env connect_request) \<and>
    check_node env cm (peer_node_of env connect_request) = (admitted, log) \<and>
    GetAvailableEndpoint env (connection_id (peer_node_of env connect_request))
        (peer_endpoint_pair_of env connect_request) EndpointPair_default kUnknown =
      (ret_val, this_endpoint_pair, this_nat_type) \<and>
    \<not> (admitted \<and> ret_val \<noteq> kSuccess) \<and>
    (NDEBUG env \<or> \<not> (admitted \<and> both_unspecified this_endpoint_pair)) \<and>
    (NDEBUG env \<or> (\<forall>r. Message_IsInitialized env (Connect_envelope env cm cd r)))"
  then obtain r log' where "Connect env cm = (Inr (Connect_envelope env cm cd r), log')"
    using Connect_answers [of cm env cd connect_request admitted log ret_val
        this_endpoint_pair this_nat_type]
    by blast
  moreover have "data (Connect_envelope env cm cd r) = [SerializeConnectResponse env
        (r\<lparr>connect_timestamp := GetTimeStamp env, connect_original_request := cd,
           connect_original_signature := get_signature cm\<rparr>)]"
    "source_id (Connect_envelope env cm cd r) = Some (identity env)"
    "destination_id (Connect_envelope env cm cd r) =
       (if has_source_id cm then Some (get_source_id cm) else None)"
    by (simp_all add: Connect_envelope_fields)
  ultimately show "\<exists>m' log' r. Connect env cm = (Inr m', log') \<and>
       data m' = [SerializeConnectResponse env r] \<and>
       source_id m' = Some (identity env) \<and>
       destination_id m' =
         (if has_source_id cm then Some (get_source_id cm) else None)"
    by blast
next
  assume "data0 fm = Some fd \<and>
    ParseFindNodesRequest env fd = Some find_nodes \<and>
    num_nodes_requested find_nodes \<noteq> 0 \<and>
    \<not> Empty env (NodeId env (target_node find_nodes)) \<and>
    IsValid env (NodeId env (target_node find_nodes)) \<and>
    (NDEBUG env \<or>
     FindNodesResponse_IsInitialized env (FindNodes_found_nodes env fm fd find_nodes) \<and>
     Message_IsInitialized env
       (FindNodes_envelope env fm (FindNodes_found_nodes env fm fd find_nodes)))"
  then have "FindNodes env fm =
      (Inr (FindNodes_envelope env fm (FindNodes_found_nodes env fm fd find_nodes)),
       [Call_GetClosestNodes (NodeId env (target_node find_nodes))
          (ucast (num_nodes_requested find_nodes - 1))])"
    by (intro FindNodes_reply) simp_all
  moreover have
    "data (FindNodes_envelope env fm (FindNodes_found_nodes env fm fd find_nodes)) =
       [SerializeFindNodesResponse env (FindNodes_found_nodes env fm fd find_nodes)]"
    "source_id (FindNodes_envelope env fm (FindNodes_found_nodes env fm fd find_nodes)) =
       Some (identity env)"
    "destination_id (FindNodes_envelope env fm (FindNodes_found_nodes env fm fd find_nodes)) =
       (if has_source_id fm then Some (get_source_id fm) else None)"
    by (simp_all add: FindNodes_envelope_def)
  ultimately show "\<exists>m' log' r. FindNodes env fm = (Inr m', log') \<and>
       data m' = [SerializeFindNodesResponse env r] \<and>
       source_id m' = Some (identity env) \<and>
       destination_id m' =
         (if has_source_id fm then Some (get_source_id fm) else None)"
    by blast
qed


theorem relayed_request_destination_witness:
  "\<not> has_source_id ((example_request ''connect'')\<lparr>source_id := None\<rparr>) \<and>
   \<not> has_source_id ((example_request ''find 3'')\<lparr>source_id := None\<rparr>) \<and>
   (\<forall>r. Message_IsInitialized example_env
      (Connect_envelope example_env ((example_request ''connect'')\<lparr>source_id := None\<rparr>)
         ''connect'' r)) \<and>
   FindNodesResponse_IsInitialized example_env
     (FindNodes_found_nodes example_env ((example_request ''find 3'')\<lparr>source_id := None\<rparr>)
        ''find 3'' \<lparr>num_nodes_requested = 3, target_node = [CHR 0x00]\<rparr>) \<and>
   Message_IsInitialized example_env
     (FindNodes_envelope example_env ((example_request ''find 3'')\<lparr>source_id := None\<rparr>)
        (FindNodes_found_nodes example_env
           ((example_request ''find 3'')\<lparr>source_id := None\<rparr>)
           ''find 3'' \<lparr>num_nodes_requested = 3, target_node = [CHR 0x00]\<rparr>)) \<and>
   (\<exists>m' log' r.
      Connect example_env ((example_request ''connect'')\<lparr>source_id := None\<rparr>) =
        (Inr m', log') \<and>
      data m' = [SerializeConnectResponse example_env r] \<and>
      source_id m' = Some ''L'' \<and> destination_id m' = None) \<and>
   (\<exists>m' log' r.
      FindNodes example_env ((example_request ''find 3'')\<lparr>source_id := None\<rparr>) =
        (Inr m', log') \<and>
      data m' = [SerializeFindNodesResponse example_env r] \<and>
      source_id m' = Some ''L'' \<and> destination_id m' = None)"
proof -
  let ?cm = "(example_request ''connect'')\<lparr>source_id := None\<rparr>"
  let ?fm = "(example_request ''find 3'')\<lparr>source_id := None\<rparr>"
  let ?r = "\<lparr>request_contact = example_peer_contact\<rparr>"
  let ?f = "\<lparr>num_nodes_requested = 3, target_node = [CHR 0x00]\<rparr>"
  let ?log = "[Call_RoutingTable_CheckNode \<lparr>node_id = ''P'', connection_id = ''Q''\<rparr>]"
  have relayed: "\<not> has_source_id ?cm" "\<not> has_source_id ?fm"
    by (simp_all add: has_source_id_def)
  have c1: "get_destination_id ?cm = identity example_env"
    by (simp add: get_destination_id_def example_request_def example_env_fields)
  have c2: "data0 ?cm = Some ''connect''"
    by (simp add: data0_def example_request_def)
  have c3: "ParseConnectRequest example_env ''connect'' = Some ?r"
    by (simp add: example_env_parsers)
  have c4: "\<not> both_unspecified (peer_endpoint_pair_of example_env ?r)"
    by (simp add: example_connect_locals)
  have c5: "check_node example_env ?cm (peer_node_of example_env ?r) = (True, ?log)"
    by (simp add: check_node_def get_client_node_def example_request_def
        example_env_fields example_connect_locals)
  have c6: "GetAvailableEndpoint example_env (connection_id (peer_node_of example_env ?r))
       (peer_endpoint_pair_of example_env ?r) EndpointPair_default kUnknown =
     (kSuccess, example_endpoint_pair, kOther)"
    by (simp add: example_env_fields)
  have c7: "\<not> (True \<and> kSuccess \<noteq> kSuccess)"
    by simp
  have c8: "NDEBUG example_env \<or> \<not> (True \<and> both_unspecified example_endpoint_pair)"
    by (simp add: example_connect_locals)
  have ci: "\<forall>r. Message_IsInitialized example_env
      (Connect_envelope example_env ?cm ''connect'' r)"
    by (simp add: Connect_envelope_def example_env_fields is_set_def)
  have f1: "data0 ?fm = Some ''find 3''"
    by (simp add: data0_def example_request_def)
  have f2: "ParseFindNodesRequest example_env ''find 3'' = Some ?f"
    by (simp add: example_env_parsers)
  have f3: "num_nodes_requested ?f \<noteq> 0"
    by simp
  have f4: "\<not> Empty example_env (NodeId example_env (target_node ?f))"
    by (simp add: example_env_fields)
  have f5: "IsValid example_env (NodeId example_env (target_node ?f))"
    by (simp add: example_env_fields)
  have fi: "FindNodesResponse_IsInitialized example_env
      (FindNodes_found_nodes example_env ?fm ''find 3'' ?f)"
    "Message_IsInitialized example_env
      (FindNodes_envelope example_env ?fm
         (FindNodes_found_nodes example_env ?fm ''find 3'' ?f))"
    by (simp_all add: FindNodes_found_nodes_def FindNodes_envelope_def example_env_fields
        is_set_def)
  note both = relayed_request_destination [where cm = ?cm and env = example_env
      and cd = "''connect''" and connect_request = ?r and admitted = True and log = ?log
      and ret_val = kSuccess and this_endpoint_pair = example_endpoint_pair
      and this_nat_type = kOther and fm = ?fm and fd = "''find 3''" and find_nodes = ?f]
  from both c1 c2 c3 c4 c5 c6 c7 c8 ci relayed
  have connect: "\<exists>m' log' r. Connect example_env ?cm = (Inr m', log') \<and>
      data m' = [SerializeConnectResponse example_env r] \<and>
      source_id m' = Some ''L'' \<and> destination_id m' = None"
    by (simp add: example_env_fields)
  from both f1 f2 f3 f4 f5 fi relayed
  have find: "\<exists>m' log' r. FindNodes example_env ?fm = (Inr m', log') \<and>
      data m' = [SerializeFindNodesResponse example_env r] \<and>
      source_id m' = Some ''L'' \<and> destination_id m' = None"
    by (simp add: example_env_fields)
  from relayed ci fi connect find show ?thesis by blast
qed

section \<open>FindNodes\<close>

text \<open>
  C3, as stated, fails: the count handed to \<^verbatim>\<open>GetClosestNodes\<close> is cast to 16 bits. On
  the concrete node a request for 65537 nodes closest to 0 asks the table for 0 nodes and
  answers with the local identity alone, while the 65536 closest nodes of the table are
  its five entries.
\<close>

theorem FindNodes_count_counterexample:
  "0 < num_nodes_requested \<lparr>num_nodes_requested = 65537, target_node = [CHR 0x00]\<rparr> \<and>
   FindNodes example_env (example_request ''find 65537'') =
     (Inr \<lparr>destination_id = Some ''S'', source_id = Some ''L'',
        data = [SerializeFindNodesResponse example_env
          \<lparr>nodes = [''L''], found_original_request = ''find 65537'',
           found_original_signature = ''sig'', found_timestamp = 1000\<rparr>],
        signature = Some ''sig'', direct = Some True, replication = Some 1,
        client_node = Some False, request = Some False, hops_to_live = Some 50,
        route_history = []\<rparr>,
      [Call_GetClosestNodes [CHR 0x00] 0]) \<and>
   GetClosestNodes_spec ''L'' example_table [CHR 0x00] (65537 - 1) =
     [[CHR 0x01], [CHR 0x03], [CHR 0x07], [CHR 0x0F], [CHR 0x1F]] \<and>
   SerializeFindNodesResponse example_env
       \<lparr>nodes = [''L''], found_original_request = ''find 65537'',
        found_original_signature = ''sig'', found_timestamp = 1000\<rparr> \<noteq>
     SerializeFindNodesResponse example_env
       \<lparr>nodes = ''L'' # GetClosestNodes_spec ''L'' example_table [CHR 0x00] (65537 - 1),
        found_original_request = ''find 65537'',
        found_original_signature = ''sig'', found_timestamp = 1000\<rparr>"
  by (simp add: FindNodes_def Let_def example_env_parsers assert_initialized_def
      example_env_fields is_set_def destination_copy example_closest
      example_request_def data0_def get_signature_def)

text \<open>
  C3, amended. For a request of at least 1 and at most 65536 nodes with a target that is
  not empty and valid, \<^verbatim>\<open>FindNodes\<close> asks the routing table once, for the target and
  the number requested less one, and the node list of its response is the local identity
  followed by the nodes returned, in their order. The environment is one where
  \<^verbatim>\<open>assert\<close> is compiled out or the response and the envelope are initialised.
  The instance below is the table holding 1, 3, 7, 15 and 31, asked for the 3 nodes
  closest to 0: the list is the local identity, 1, 3.
\<close>

theorem FindNodes_local_then_closest:
  assumes "data0 message = Some d"
      and "ParseFindNodesRequest env d = Some find_nodes"
      and "0 < num_nodes_requested find_nodes"
      and "num_nodes_requested find_nodes \<le> 65536"
      and "\<not> Empty env (NodeId env (target_node find_nodes))"
      and "IsValid env (NodeId env (target_node find_nodes))"
      and "NDEBUG env \<or>
           FindNodesResponse_IsInitialized env (FindNodes_found_nodes env message d find_nodes) \<and>
           Message_IsInitialized env
             (FindNodes_envelope env message (FindNodes_found_nodes env message d find_nodes))"
  shows "\<exists>m' count.
           FindNodes env message =
             (Inr m', [Call_GetClosestNodes (NodeId env (target_node find_nodes)) count]) \<and>
           unat count = unat (num_nodes_requested find_nodes) - 1 \<and>
           data m' = [SerializeFindNodesResponse env
             \<lparr>nodes = identity env # map (String env)
                (GetClosestNodes env (NodeId env (target_node find_nodes)) count),
              found_original_request = d,
              found_original_signature = get_signature message,
              found_timestamp = GetTimeStamp env\<rparr>]"
proof -
  from assms(3) have nz: "num_nodes_requested find_nodes \<noteq> 0" by auto
  let ?count = "ucast (num_nodes_requested find_nodes - 1) :: 16 word"
  let ?found = "FindNodes_found_nodes env message d find_nodes"
  have run: "FindNodes env message =
      (Inr (FindNodes_envelope env message ?found),
       [Call_GetClosestNodes (NodeId env (target_node find_nodes)) ?count])"
    by (rule FindNodes_reply [OF assms(1,2) nz assms(5-7)])
  have count: "unat ?count = unat (num_nodes_requested find_nodes) - 1"
    by (rule count_truncation [OF assms(3,4)])
  have reply: "data (FindNodes_envelope env message ?found) = [SerializeFindNodesResponse env
      \<lparr>nodes = identity env # map (String env)
         (GetClosestNodes env (NodeId env (target_node find_nodes)) ?count),
       found_original_request = d,
       found_original_signature = get_signature message,
       found_timestamp = GetTimeStamp env\<rparr>]"
    by (simp add: FindNodes_envelope_def FindNodes_found_nodes_def)
  from run count reply show ?thesis by blast
qed

theorem FindNodes_local_then_closest_witness:
  "data0 (example_request ''find 3'') = Some ''find 3'' \<and>
   ParseFindNodesRequest example_env ''find 3'' =
     Some \<lparr>num_nodes_requested = 3, target_node = [CHR 0x00]\<rparr> \<and>
   FindNodesResponse_IsInitialized example_env
     (FindNodes_found_nodes example_env (example_request ''find 3'') ''find 3''
        \<lparr>num_nodes_requested = 3, target_node = [CHR 0x00]\<rparr>) \<and>
   Message_IsInitialized example_env
     (FindNodes_envelope example_env (example_request ''find 3'')
        (FindNodes_found_nodes example_env (example_request ''find 3'') ''find 3''
           \<lparr>num_nodes_requested = 3, target_node = [CHR 0x00]\<rparr>)) \<and>
   GetClosestNodes example_env [CHR 0x00] 2 = [[CHR 0x01], [CHR 0x03]] \<and>
   (\<exists>m'. FindNodes example_env (example_request ''find 3'') =
        (Inr m', [Call_GetClosestNodes [CHR 0x00] 2]) \<and>
      data m' = [SerializeFindNodesResponse example_env
        \<lparr>nodes = [''L'', [CHR 0x01], [CHR 0x03]], found_original_request = ''find 3'',
         found_original_signature = ''sig'', found_timestamp = 1000\<rparr>])"
proof -
  let ?m = "example_request ''find 3''"
  let ?f = "\<lparr>num_nodes_requested = 3, target_node = [CHR 0x00]\<rparr>"
  have f1: "data0 ?m = Some ''find 3''"
    by (simp add: example_request_getters)
  have f2: "ParseFindNodesRequest example_env ''find 3'' = Some ?f"
    by (simp add: example_env_parsers)
  have f3: "0 < num_nodes_requested ?f" by simp
  have f4: "num_nodes_requested ?f \<le> 65536" by simp
  have f5: "\<not> Empty example_env (NodeId example_env (target_node ?f))"
    by (simp add: example_env_fields)
  have f6: "IsValid example_env (NodeId example_env (target_node ?f))"
    by (simp add: example_env_fields)
  have fi: "FindNodesResponse_IsInitialized example_env
      (FindNodes_found_nodes example_env ?m ''find 3'' ?f)"
    "Message_IsInitialized example_env
      (FindNodes_envelope example_env ?m (FindNodes_found_nodes example_env ?m ''find 3'' ?f))"
    by (simp_all add: FindNodes_found_nodes_def FindNodes_envelope_def example_env_fields
        is_set_def)
  then have f7: "NDEBUG example_env \<or>
      FindNodesResponse_IsInitialized example_env
        (FindNodes_found_nodes example_env ?m ''find 3'' ?f) \<and>
      Message_IsInitialized example_env
        (FindNodes_envelope example_env ?m (FindNodes_found_nodes example_env ?m ''find 3'' ?f))"
    by simp
  have closest: "GetClosestNodes example_env [CHR 0x00] 2 = [[CHR 0x01], [CHR 0x03]]"
    by (simp add: example_env_fields example_closest)
  from FindNodes_local_then_closest [OF f1 f2 f3 f4 f5 f6 f7]
  obtain m' count where run: "FindNodes example_env ?m =
        (Inr m', [Call_GetClosestNodes [CHR 0x00] count])"
    and count: "unat count = 2"
    and reply: "data m' = [SerializeFindNodesResponse example_env
        \<lparr>nodes = identity example_env # map (String example_env)
           (GetClosestNodes example_env [CHR 0x00] count),
         found_original_request = ''find 3'',
         found_original_signature = get_signature ?m,
         found_timestamp = GetTimeStamp example_env\<rparr>]"
    by (auto simp add: example_env_fields(9))
  from count have "count = 2"
    by (simp add: word_unat_eq_iff)
  with run reply closest
  have "\<exists>m'. FindNodes example_env ?m = (Inr m', [Call_GetClosestNodes [CHR 0x00] 2]) \<and>
      data m' = [SerializeFindNodesResponse example_env
        \<lparr>nodes = [''L'', [CHR 0x01], [CHR 0x03]], found_original_request = ''find 3'',
         found_original_signature = ''sig'', found_timestamp = 1000\<rparr>]"
    by (simp add: example_env_fields example_request_getters)
  with f1 f2 fi closest show ?thesis by blast
qed

section \<open>ConnectSuccess\<close>

text \<open>
  C8. On the concrete node, a connect-success message whose node id is empty:
  \<^verbatim>\<open>ConnectSuccess\<close> makes no call (no pending node, no acknowledgement) and returns the
  envelope as it came, which is not the cleared envelope. The branch returns without
  \<^verbatim>\<open>message.Clear()\<close>.
\<close>

theorem ConnectSuccess_empty_id_not_cleared:
  "ParseConnectSuccess example_env ''success empty'' =
     Some \<lparr>success_node_id = [], success_connection_id = ''Q'', requestor = True\<rparr> \<and>
   Empty example_env (NodeId example_env []) \<and>
   ConnectSuccess example_env (example_request ''success empty'') =
     (Inr (example_request ''success empty''), []) \<and>
   example_request ''success empty'' \<noteq> Clear"
  by (simp add: ConnectSuccess_def example_request_getters example_env_fields
      example_env_parsers)
     (simp add: example_request_def Clear_def)

text \<open>
  C5. On the concrete node, a connect-success message with \<open>requestor\<close> false: the
  envelope is cleared and one acknowledgement is sent directly to the peer, built with an
  empty list of close ids, although the table has five nodes close to the local id. With
  \<open>requestor\<close> true the peer is added to the pending nodes and the envelope is
  cleared.
\<close>

theorem ConnectSuccess_ack_close_ids_empty:
  "ConnectSuccess example_env (example_request ''success responder'') =
     (Inr Clear,
      [Call_SendToDirect
         (ConnectSuccessAcknoledgement example_env ''P'' ''L'' ''C'' True [] False)
         ''P'' ''Q'']) \<and>
   GetClosestNodes example_env (kNodeId example_env) 8 =
     [[CHR 0x0F], [CHR 0x07], [CHR 0x01], [CHR 0x03], [CHR 0x1F]] \<and>
   ConnectSuccess example_env (example_request ''success requestor'') =
     (Inr Clear, [Call_AddPendingNode \<lparr>node_id = ''P'', connection_id = ''Q''\<rparr>])"
  by (simp add: ConnectSuccess_def ConnectSuccessFromRequester_def
      ConnectSuccessFromResponder_def example_env_fields example_env_parsers
      example_request_getters example_closest)

end
